theory Spec2Isabelle
  imports Main "HOL-Library.Word"
begin

section \<open>Protocol (src/src/protocol.py)\<close>

subsection \<open>Python values and exceptions\<close>

text \<open>
  The payload of a message is whatever \<^verbatim>\<open>json.loads\<close> returns or the caller passes:
  \<^verbatim>\<open>None\<close>, booleans, integers, strings, lists and string-keyed dicts (floats are left
  out). A dict is an association list in insertion order.
\<close>

datatype pyval =
    PNone
  | PBool bool
  | PInt int
  | PStr string
  | PList "pyval list"
  | PDict "(string \<times> pyval) list"

text \<open>The exceptions that the modelled code can raise.\<close>

datatype exn = ValueError | StructError | AttributeError | TypeError

type_synonym byte = "8 word"

subsection \<open>MessageType\<close>

datatype MessageType =
    CONNECT | CONNECT_ACK | DISCONNECT
  | CHAT_MSG | CHAT_ACK
  | BROADCAST | BROADCAST_ACK
  | PRIVATE_MSG | PRIVATE_ACK
  | NACK | ERROR
  | HEARTBEAT | HEARTBEAT_ACK

text \<open>\<^verbatim>\<open>int(msg_type)\<close>: the wire value of an enum member.\<close>

fun int_of_MessageType :: "MessageType \<Rightarrow> nat" where
  "int_of_MessageType CONNECT = 1"
| "int_of_MessageType CONNECT_ACK = 2"
| "int_of_MessageType DISCONNECT = 3"
| "int_of_MessageType CHAT_MSG = 4"
| "int_of_MessageType CHAT_ACK = 5"
| "int_of_MessageType BROADCAST = 6"
| "int_of_MessageType BROADCAST_ACK = 7"
| "int_of_MessageType PRIVATE_MSG = 8"
| "int_of_MessageType PRIVATE_ACK = 9"
| "int_of_MessageType NACK = 10"
| "int_of_MessageType ERROR = 11"
| "int_of_MessageType HEARTBEAT = 12"
| "int_of_MessageType HEARTBEAT_ACK = 13"

text \<open>\<^verbatim>\<open>MessageType(n)\<close>: raises \<^verbatim>\<open>ValueError\<close> when no member has the value.\<close>

definition MessageType_of_int :: "nat \<Rightarrow> exn + MessageType" where
  "MessageType_of_int n =
     (if n = 1 then Inr CONNECT
      else if n = 2 then Inr CONNECT_ACK
      else if n = 3 then Inr DISCONNECT
      else if n = 4 then Inr CHAT_MSG
      else if n = 5 then Inr CHAT_ACK
      else if n = 6 then Inr BROADCAST
      else if n = 7 then Inr BROADCAST_ACK
      else if n = 8 then Inr PRIVATE_MSG
      else if n = 9 then Inr PRIVATE_ACK
      else if n = 10 then Inr NACK
      else if n = 11 then Inr ERROR
      else if n = 12 then Inr HEARTBEAT
      else if n = 13 then Inr HEARTBEAT_ACK
      else Inl ValueError)"

subsection \<open>ProtocolMessage\<close>

text \<open>
  The attributes of a \<^verbatim>\<open>ProtocolMessage\<close>. The \<^verbatim>\<open>version\<close> attribute is the class
  constant; the \<^verbatim>\<open>checksum\<close> attribute only caches the value last computed by
  \<^verbatim>\<open>serialize\<close> or read by \<^verbatim>\<open>deserialize\<close> and is never read, so it is not a field.
\<close>

record message =
  msg_type :: MessageType
  sequence_num :: int
  timestamp :: int
  payload :: pyval

definition VERSION :: nat where
  "VERSION = 1"

definition HEADER_SIZE :: nat where
  "HEADER_SIZE = 24"

text \<open>
  \<^verbatim>\<open>__init__\<close>: \<^verbatim>\<open>timestamp or self._get_timestamp()\<close> takes the clock when the argument
  is \<^verbatim>\<open>None\<close> or 0. The clock reading \<open>now\<close> (milliseconds) is an argument.
\<close>

definition ProtocolMessage :: "int \<Rightarrow> MessageType \<Rightarrow> int \<Rightarrow> pyval \<Rightarrow> int option \<Rightarrow> message" where
  "ProtocolMessage now ty seq p ts =
     \<lparr> msg_type = ty, sequence_num = seq,
       timestamp = (case ts of None \<Rightarrow> now | Some t \<Rightarrow> if t = 0 then now else t),
       payload = p \<rparr>"

subsection \<open>Library functions\<close>

text \<open>
  \<^verbatim>\<open>json.dumps\<close>, \<^verbatim>\<open>json.loads\<close>, \<^verbatim>\<open>str.encode('utf-8')\<close>, \<^verbatim>\<open>bytes.decode('utf-8')\<close>
  and \<^verbatim>\<open>hashlib.md5\<close> belong to the Python library, not to the repository. They are
  parameters of the model. \<open>md5_digest\<close> returns the 16 bytes of the digest; the two
  decoders return \<open>None\<close> where Python raises \<^verbatim>\<open>UnicodeDecodeError\<close> or
  \<^verbatim>\<open>JSONDecodeError\<close>.
\<close>

record pylib =
  json_dumps :: "pyval \<Rightarrow> string"
  json_loads :: "string \<Rightarrow> pyval option"
  utf8_encode :: "string \<Rightarrow> byte list"
  utf8_decode :: "byte list \<Rightarrow> string option"
  md5_digest :: "byte list \<Rightarrow> byte list"

subsection \<open>struct.pack and struct.unpack, network byte order\<close>

fun be_bytes :: "nat \<Rightarrow> nat \<Rightarrow> byte list" where
  "be_bytes 0 v = []"
| "be_bytes (Suc n) v = be_bytes n (v div 256) @ [of_nat (v mod 256)]"

definition be_nat :: "byte list \<Rightarrow> nat" where
  "be_nat bs = foldl (\<lambda>a b. 256 * a + unat b) 0 bs"

text \<open>One unsigned field of \<open>n\<close> bytes: \<^verbatim>\<open>struct.error\<close> when the value is out of range.\<close>

definition pack_field :: "nat \<Rightarrow> int \<Rightarrow> exn + byte list" where
  "pack_field n v =
     (if 0 \<le> v \<and> v < 256 ^ n then Inr (be_bytes n (nat v)) else Inl StructError)"

text \<open>\<^verbatim>\<open>struct.pack('!BBIQIIH', ...)\<close>: the first field that is out of range raises.\<close>

fun pack_fields :: "(nat \<times> int) list \<Rightarrow> exn + byte list" where
  "pack_fields [] = Inr []"
| "pack_fields ((n, v) # fs) =
     (case pack_field n v of
        Inl e \<Rightarrow> Inl e
      | Inr bs \<Rightarrow> (case pack_fields fs of Inl e \<Rightarrow> Inl e | Inr rest \<Rightarrow> Inr (bs @ rest)))"

text \<open>\<^verbatim>\<open>data[i:j]\<close> for \<open>0 \<le> i \<le> j\<close>.\<close>

definition slice :: "nat \<Rightarrow> nat \<Rightarrow> 'a list \<Rightarrow> 'a list" where
  "slice i j xs = take (j - i) (drop i xs)"

text \<open>\<^verbatim>\<open>_calculate_checksum\<close>: the first four bytes of the MD5 digest, big-endian.\<close>

definition calculate_checksum :: "pylib \<Rightarrow> byte list \<Rightarrow> nat" where
  "calculate_checksum L payload_bytes = be_nat (take 4 (md5_digest L payload_bytes))"

subsection \<open>serialize and deserialize\<close>

definition serialize :: "pylib \<Rightarrow> message \<Rightarrow> exn + byte list" where
  "serialize L m =
     (let payload_json = json_dumps L (payload m);
          payload_bytes = utf8_encode L payload_json;
          payload_len = length payload_bytes;
          checksum = calculate_checksum L payload_bytes
      in case pack_fields
                [(1, int VERSION),
                 (1, int (int_of_MessageType (msg_type m))),
                 (4, sequence_num m),
                 (8, timestamp m),
                 (4, int payload_len),
                 (4, int checksum),
                 (2, 0)] of
           Inl e \<Rightarrow> Inl e
         | Inr header \<Rightarrow> Inr (header @ payload_bytes))"

text \<open>
  \<^verbatim>\<open>struct.unpack('!BBIQIIH', header)\<close> on the 24 bytes of a header: version, type,
  sequence number, timestamp, payload length, checksum, reserved.
\<close>

definition unpack_header :: "byte list \<Rightarrow> nat \<times> nat \<times> nat \<times> nat \<times> nat \<times> nat \<times> nat" where
  "unpack_header h =
     (be_nat (slice 0 1 h), be_nat (slice 1 2 h), be_nat (slice 2 6 h), be_nat (slice 6 14 h),
      be_nat (slice 14 18 h), be_nat (slice 18 22 h), be_nat (slice 22 24 h))"

text \<open>
  The result is \<open>Inr None\<close> where the code returns \<^verbatim>\<open>None\<close>, \<open>Inr (Some msg)\<close> where it
  returns a message and \<open>Inl e\<close> where an exception leaves the function.
\<close>

definition deserialize :: "pylib \<Rightarrow> int \<Rightarrow> byte list \<Rightarrow> exn + message option" where
  "deserialize L now data =
     (if length data < HEADER_SIZE then Inr None
      else
        (case unpack_header (slice 0 HEADER_SIZE data) of
           (version, ty, seq_num, ts, payload_len, checksum, reserved) \<Rightarrow>
             if version \<noteq> VERSION then Inr None
             else
               let payload_start = HEADER_SIZE;
                   payload_end = payload_start + payload_len
               in if length data < payload_end then Inr None
                  else
                    let payload_bytes = slice payload_start payload_end data
                    in if calculate_checksum L payload_bytes \<noteq> checksum then Inr None
                       else (case utf8_decode L payload_bytes of
                               None \<Rightarrow> Inr None
                             | Some payload_json \<Rightarrow>
                                 (case json_loads L payload_json of
                                    None \<Rightarrow> Inr None
                                  | Some p \<Rightarrow>
                                      (case MessageType_of_int ty of
                                         Inl e \<Rightarrow> Inl e
                                       | Inr t \<Rightarrow>
                                           Inr (Some (ProtocolMessage now t (int seq_num) p
                                                        (Some (int ts)))))))))"

subsection \<open>create_ack and create_nack\<close>

definition ack_type_map :: "MessageType \<Rightarrow> MessageType" where
  "ack_type_map t =
     (case t of
        CONNECT \<Rightarrow> CONNECT_ACK
      | CHAT_MSG \<Rightarrow> CHAT_ACK
      | BROADCAST \<Rightarrow> BROADCAST_ACK
      | PRIVATE_MSG \<Rightarrow> PRIVATE_ACK
      | HEARTBEAT \<Rightarrow> HEARTBEAT_ACK
      | _ \<Rightarrow> CHAT_ACK)"

definition create_ack :: "int \<Rightarrow> message \<Rightarrow> message" where
  "create_ack now m =
     ProtocolMessage now (ack_type_map (msg_type m)) (sequence_num m)
       (PDict [(''ack_for'', PInt (sequence_num m)), (''status'', PStr ''success'')]) None"

definition create_nack :: "int \<Rightarrow> message \<Rightarrow> string \<Rightarrow> message" where
  "create_nack now m reason =
     ProtocolMessage now NACK (sequence_num m)
       (PDict [(''nack_for'', PInt (sequence_num m)), (''reason'', PStr reason),
               (''status'', PStr ''failure'')]) None"

subsection \<open>MessageBuilder\<close>

definition connect_message :: "int \<Rightarrow> string \<Rightarrow> int \<Rightarrow> message" where
  "connect_message now username seq_num =
     ProtocolMessage now CONNECT seq_num
       (PDict [(''username'', PStr username), (''action'', PStr ''connect'')]) None"

definition broadcast_message :: "int \<Rightarrow> pyval \<Rightarrow> string \<Rightarrow> int \<Rightarrow> message" where
  "broadcast_message now username text seq_num =
     ProtocolMessage now BROADCAST seq_num
       (PDict [(''username'', username), (''message'', PStr text), (''broadcast'', PBool True)])
       None"

definition error_message :: "int \<Rightarrow> string \<Rightarrow> int \<Rightarrow> message" where
  "error_message now error_msg seq_num =
     ProtocolMessage now ERROR seq_num (PDict [(''error'', PStr error_msg)]) None"

subsection \<open>Python operations on values\<close>

text \<open>\<^verbatim>\<open>payload.get(key)\<close>: only a dict has the method.\<close>

definition payload_get :: "pyval \<Rightarrow> string \<Rightarrow> exn + pyval option" where
  "payload_get p k = (case p of PDict kvs \<Rightarrow> Inr (map_of kvs k) | _ \<Rightarrow> Inl AttributeError)"

text \<open>
  A value used as a dict key: lists and dicts are unhashable (\<^verbatim>\<open>TypeError\<close>), and a
  boolean is the same key as the integer 0 or 1.
\<close>

definition dict_key :: "pyval \<Rightarrow> exn + pyval" where
  "dict_key v =
     (case v of
        PList _ \<Rightarrow> Inl TypeError
      | PDict _ \<Rightarrow> Inl TypeError
      | PBool b \<Rightarrow> Inr (PInt (if b then 1 else 0))
      | _ \<Rightarrow> Inr v)"

text \<open>The truth value of an object in a condition.\<close>

definition truthy :: "pyval \<Rightarrow> bool" where
  "truthy v =
     (case v of
        PNone \<Rightarrow> False
      | PBool b \<Rightarrow> b
      | PInt i \<Rightarrow> i \<noteq> 0
      | PStr s \<Rightarrow> s \<noteq> []
      | PList xs \<Rightarrow> xs \<noteq> []
      | PDict kvs \<Rightarrow> kvs \<noteq> [])"

text \<open>Decimal digits of a natural number, as \<^verbatim>\<open>str\<close> prints it.\<close>

fun str_nat :: "nat \<Rightarrow> string" where
  "str_nat n =
     (if n < 10 then [char_of (48 + n)] else str_nat (n div 10) @ [char_of (48 + n mod 10)])"

definition str_int :: "int \<Rightarrow> string" where
  "str_int i = (if i < 0 then CHR ''-'' # str_nat (nat (- i)) else str_nat (nat i))"

text \<open>
  \<^verbatim>\<open>f'{v}'\<close> for the values that the handlers format. A list or a dict never reaches a
  format: it fails earlier as a dict key; its text is left empty here.
\<close>

definition py_str :: "pyval \<Rightarrow> string" where
  "py_str v =
     (case v of
        PNone \<Rightarrow> ''None''
      | PBool b \<Rightarrow> (if b then ''True'' else ''False'')
      | PInt i \<Rightarrow> str_int i
      | PStr s \<Rightarrow> s
      | _ \<Rightarrow> [])"

section \<open>Client (src/src/client.py)\<close>

text \<open>
  Times are integers in milliseconds. \<^verbatim>\<open>time.time()\<close> is a clock that only
  \<^verbatim>\<open>time.sleep(0.1)\<close> advances, by 100 ms.
\<close>

definition ACK_TIMEOUT :: int where
  "ACK_TIMEOUT = 2000"

definition MAX_RETRIES :: nat where
  "MAX_RETRIES = 3"

definition POLL_SLEEP :: int where
  "POLL_SLEEP = 100"

text \<open>\<^verbatim>\<open>pending_acks\<close>: seq_num -> (message, timestamp, retries).\<close>

type_synonym pending_table = "int \<rightharpoonup> (message \<times> int \<times> nat)"

text \<open>
  The part of a \<^verbatim>\<open>ReliableClient\<close> that \<^verbatim>\<open>_send_reliable\<close> and the receive thread share:
  the table, the two flags, and the frames that \<^verbatim>\<open>_send_message\<close> has written to the socket.
\<close>

record client =
  pending_acks :: pending_table
  connected :: bool
  running :: bool
  sent :: "byte list list"

text \<open>
  \<^verbatim>\<open>key in self.pending_acks\<close> for a payload value: the table's keys are integers, so only
  an integer or a boolean can be found; an unhashable value raises.
\<close>

definition pending_key :: "pyval \<Rightarrow> exn + int option" where
  "pending_key v =
     (case dict_key v of
        Inl e \<Rightarrow> Inl e
      | Inr (PInt k) \<Rightarrow> Inr (Some k)
      | Inr _ \<Rightarrow> Inr None)"

definition remove_pending :: "pyval \<Rightarrow> (int \<rightharpoonup> 'a) \<Rightarrow> exn + (int \<rightharpoonup> 'a)" where
  "remove_pending v tbl =
     (case pending_key v of
        Inl e \<Rightarrow> Inl e
      | Inr None \<Rightarrow> Inr tbl
      | Inr (Some k) \<Rightarrow> (if tbl k \<noteq> None then Inr (tbl(k := None)) else Inr tbl))"

definition handle_ack :: "message \<Rightarrow> pending_table \<Rightarrow> exn + pending_table" where
  "handle_ack m tbl =
     (case payload_get (payload m) ''ack_for'' of
        Inl e \<Rightarrow> Inl e
      | Inr None \<Rightarrow> Inr tbl
      | Inr (Some ack_for) \<Rightarrow> (if ack_for \<noteq> PNone then remove_pending ack_for tbl else Inr tbl))"

definition handle_nack :: "message \<Rightarrow> pending_table \<Rightarrow> exn + pending_table" where
  "handle_nack m tbl =
     (case payload_get (payload m) ''nack_for'' of
        Inl e \<Rightarrow> Inl e
      | Inr None \<Rightarrow> Inr tbl
      | Inr (Some nack_for) \<Rightarrow> remove_pending nack_for tbl)"

text \<open>
  \<^verbatim>\<open>_handle_received_message\<close>, as far as the table goes. The branches for CHAT_MSG,
  BROADCAST, PRIVATE_MSG and ERROR read the payload with \<^verbatim>\<open>.get\<close> (which raises on a
  payload that is no dict), print, and answer with an ACK through \<^verbatim>\<open>_send_message\<close>,
  which catches its own exceptions; HEARTBEAT only answers. None of them touches the table.
\<close>

definition handle_received_message :: "message \<Rightarrow> pending_table \<Rightarrow> exn + pending_table" where
  "handle_received_message m tbl =
     (if msg_type m \<in> {CONNECT_ACK, CHAT_ACK, BROADCAST_ACK, PRIVATE_ACK, HEARTBEAT_ACK}
        then handle_ack m tbl
      else if msg_type m = NACK then handle_nack m tbl
      else if msg_type m \<in> {CHAT_MSG, BROADCAST, PRIVATE_MSG, ERROR}
        then (case payload_get (payload m) ''message'' of Inl e \<Rightarrow> Inl e | Inr _ \<Rightarrow> Inr tbl)
      else Inr tbl)"

text \<open>
  \<^verbatim>\<open>_receive_loop\<close> over the messages that arrive in one interval: an exception of the
  handler ends the loop and clears both flags; once the loop has ended nothing is handled.
\<close>

fun receive_loop :: "message list \<Rightarrow> client \<Rightarrow> client" where
  "receive_loop [] c = c"
| "receive_loop (m # ms) c =
     (if \<not> running c then c
      else (case handle_received_message m (pending_acks c) of
              Inl e \<Rightarrow> c\<lparr>connected := False, running := False\<rparr>
            | Inr tbl \<Rightarrow> receive_loop ms (c\<lparr>pending_acks := tbl\<rparr>)))"

text \<open>
  \<^verbatim>\<open>_send_message\<close>: \<open>ok\<close> says whether \<^verbatim>\<open>sendall\<close> succeeds. Any exception (of
  \<^verbatim>\<open>serialize\<close>, of \<^verbatim>\<open>to_bytes(4)\<close> for a frame of 2^32 bytes or more, of the socket)
  is caught.
\<close>

definition send_message :: "pylib \<Rightarrow> bool \<Rightarrow> message \<Rightarrow> client \<Rightarrow> bool \<times> client" where
  "send_message L ok m c =
     (case serialize L m of
        Inl e \<Rightarrow> (False, c\<lparr>connected := False\<rparr>)
      | Inr data \<Rightarrow>
          (if length data < 2 ^ 32 \<and> ok
           then (True, c\<lparr>sent := sent c @ [be_bytes 4 (length data) @ data]\<rparr>)
           else (False, c\<lparr>connected := False\<rparr>)))"

text \<open>
  What the other side and the receive thread do while \<^verbatim>\<open>_send_reliable\<close> runs, by
  attempt \<open>i\<close> (the value of \<^verbatim>\<open>retries\<close>): whether the write succeeds, the messages handled
  between the write and the registration of the entry, and the messages handled during the
  \<open>j\<close>-th sleep of the wait.
\<close>

record env =
  send_ok :: "nat \<Rightarrow> bool"
  early :: "nat \<Rightarrow> message list"
  rx :: "nat \<Rightarrow> nat \<Rightarrow> message list"

text \<open>
  The inner loop: \<open>start\<close> is \<^verbatim>\<open>start_time\<close>, \<open>now\<close> the clock, \<open>j\<close> counts the sleeps.
  The result is whether the entry was seen gone, the client, and the clock at the end.
\<close>

function wait_for_ack ::
  "(nat \<Rightarrow> message list) \<Rightarrow> int \<Rightarrow> int \<Rightarrow> int \<Rightarrow> nat \<Rightarrow> client \<Rightarrow> bool \<times> client \<times> int" where
  "wait_for_ack inbox seq_num start now j c =
     (if now - start < ACK_TIMEOUT
      then (if pending_acks c seq_num = None then (True, c, now)
            else wait_for_ack inbox seq_num start (now + POLL_SLEEP) (Suc j)
                   (receive_loop (inbox j) c))
      else (False, c, now))"
  by pat_completeness auto
termination
  by (relation "measure (\<lambda>(inbox, seq_num, start, now, j, c). nat (start + ACK_TIMEOUT - now))")
     (auto simp: POLL_SLEEP_def)

text \<open>
  What is recorded at the two moments of an attempt: the table when \<^verbatim>\<open>_send_message\<close> is
  called, and the table when the entry has been stored.
\<close>

datatype moment = Transmit pending_table | Registered pending_table

text \<open>
  \<^verbatim>\<open>_send_reliable\<close>: the outer loop from \<^verbatim>\<open>retries\<close>. The result is the returned
  boolean, the client, the clock, and the moments in order.
\<close>

function send_loop ::
  "pylib \<Rightarrow> env \<Rightarrow> message \<Rightarrow> nat \<Rightarrow> int \<Rightarrow> client \<Rightarrow> bool \<times> client \<times> int \<times> moment list" where
  "send_loop L E message retries now c =
     (let seq_num = sequence_num message in
      if retries \<le> MAX_RETRIES
      then (case send_message L (send_ok E retries) message c of
              (False, c1) \<Rightarrow> (False, c1, now, [Transmit (pending_acks c)])
            | (True, c1) \<Rightarrow>
                let c2 = receive_loop (early E retries) c1;
                    c3 = c2\<lparr>pending_acks := (pending_acks c2)(seq_num \<mapsto> (message, now, retries))\<rparr>
                in (case wait_for_ack (rx E retries) seq_num now now 0 c3 of
                      (True, c4, t) \<Rightarrow>
                        (True, c4, t, [Transmit (pending_acks c), Registered (pending_acks c3)])
                    | (False, c4, t) \<Rightarrow>
                        (case send_loop L E message (Suc retries) t c4 of
                           (r, c5, t5, tr) \<Rightarrow>
                             (r, c5, t5,
                              Transmit (pending_acks c) # Registered (pending_acks c3) # tr))))
      else (False,
            (if pending_acks c seq_num \<noteq> None
             then c\<lparr>pending_acks := (pending_acks c)(seq_num := None)\<rparr> else c),
            now, []))"
  by pat_completeness auto
termination
  by (relation "measure (\<lambda>(L, E, message, retries, now, c). Suc MAX_RETRIES - retries)") auto

definition send_reliable ::
  "pylib \<Rightarrow> env \<Rightarrow> message \<Rightarrow> int \<Rightarrow> client \<Rightarrow> bool \<times> client \<times> int \<times> moment list" where
  "send_reliable L E message now c = send_loop L E message 0 now c"

declare wait_for_ack.simps [simp del]
declare send_loop.simps [simp del]

text \<open>The components of the result of \<open>send_reliable\<close>.\<close>

definition returned :: "bool \<times> client \<times> int \<times> moment list \<Rightarrow> bool" where
  "returned res = fst res"

definition client_after :: "bool \<times> client \<times> int \<times> moment list \<Rightarrow> client" where
  "client_after res = fst (snd res)"

definition clock_after :: "bool \<times> client \<times> int \<times> moment list \<Rightarrow> int" where
  "clock_after res = fst (snd (snd res))"





section \<open>Server (src/src/server.py)\<close>

subsection \<open>ClientConnection\<close>

text \<open>
  The attributes of a \<^verbatim>\<open>ClientConnection\<close> that the handlers read or write; the client id
  is the key under which the server holds the object. \<open>username\<close> is \<^verbatim>\<open>None\<close> until a
  CONNECT registers one. Of the socket the model keeps whether \<^verbatim>\<open>sendall\<close> succeeds
  (\<open>writable\<close>), whether \<^verbatim>\<open>close()\<close> was called, and the messages whose frames were written
  (\<open>outbox\<close>).
\<close>

record connection =
  username :: pyval
  connected_conn :: bool
  pending_acks_conn :: "int \<rightharpoonup> message"
  writable :: bool
  closed :: bool
  outbox :: "message list"

text \<open>
  \<^verbatim>\<open>ClientConnection.send_message\<close>: the frame is the 4-byte length prefix and the bytes of
  \<^verbatim>\<open>serialize\<close>; any exception is caught, clears \<^verbatim>\<open>connected\<close> and gives \<^verbatim>\<open>False\<close>.
\<close>

definition send_message_conn :: "pylib \<Rightarrow> message \<Rightarrow> connection \<Rightarrow> bool \<times> connection" where
  "send_message_conn L m k =
     (case serialize L m of
        Inl e \<Rightarrow> (False, k\<lparr>connected_conn := False\<rparr>)
      | Inr data \<Rightarrow>
          (if length data < 2 ^ 32 \<and> writable k
           then (True, k\<lparr>outbox := outbox k @ [m]\<rparr>)
           else (False, k\<lparr>connected_conn := False\<rparr>)))"

subsection \<open>ChatServer\<close>

text \<open>
  \<open>conns\<close> holds the \<^verbatim>\<open>ClientConnection\<close> objects by client id, \<open>clients\<close> the keys of
  \<^verbatim>\<open>self.clients\<close> in insertion order, \<open>username_to_client\<close> the dict from usernames (as
  dict keys) to the id of the object they refer to.
\<close>

record server =
  conns :: "nat \<Rightarrow> connection"
  clients :: "nat list"
  username_to_client :: "pyval \<rightharpoonup> nat"
  sequence_num_srv :: int

text \<open>\<^verbatim>\<open>client.send_message(message)\<close> on the object with id \<open>cid\<close>; the handlers drop the result.\<close>

definition send_to :: "pylib \<Rightarrow> message \<Rightarrow> nat \<Rightarrow> server \<Rightarrow> server" where
  "send_to L m cid S = S\<lparr>conns := (conns S)(cid := snd (send_message_conn L m (conns S cid)))\<rparr>"

definition get_next_sequence :: "server \<Rightarrow> int \<times> server" where
  "get_next_sequence S = (sequence_num_srv S, S\<lparr>sequence_num_srv := sequence_num_srv S + 1\<rparr>)"

text \<open>
  \<^verbatim>\<open>_broadcast_message\<close>: the list of recipients is taken first, then each gets the message.
\<close>

definition broadcast_message_srv :: "pylib \<Rightarrow> message \<Rightarrow> nat option \<Rightarrow> server \<Rightarrow> server" where
  "broadcast_message_srv L m exclude_client S =
     (let clients_to_send =
            filter (\<lambda>i. connected_conn (conns S i) \<and> Some i \<noteq> exclude_client
                         \<and> truthy (username (conns S i)))
                   (clients S)
      in fold (send_to L m) clients_to_send S)"

text \<open>
  The handlers return the exception that leaves them, if any, and the server. \<open>clk k\<close> is
  the clock when the handler constructs its \<open>k\<close>-th message.
\<close>

text \<open>\<^verbatim>\<open>message.payload.get('username', f'User{client.client_id}')\<close>.\<close>

definition connect_username :: "nat \<Rightarrow> message \<Rightarrow> exn + pyval" where
  "connect_username cid m =
     (case payload_get (payload m) ''username'' of
        Inl e \<Rightarrow> Inl e
      | Inr None \<Rightarrow> Inr (PStr (''User'' @ str_nat cid))
      | Inr (Some u) \<Rightarrow> Inr u)"

definition handle_connect ::
  "pylib \<Rightarrow> (nat \<Rightarrow> int) \<Rightarrow> nat \<Rightarrow> message \<Rightarrow> server \<Rightarrow> exn option \<times> server" where
  "handle_connect L clk cid m S =
     (case connect_username cid m of
        Inl e \<Rightarrow> (Some e, S)
      | Inr u \<Rightarrow>
          (case dict_key u of
             Inl e \<Rightarrow> (Some e, S)
           | Inr key \<Rightarrow>
               if username_to_client S key \<noteq> None
               then (None, send_to L (create_nack (clk 0) m ''Username already taken'') cid S)
               else
                 let S1 = S\<lparr>conns := (conns S)(cid := (conns S cid)\<lparr>username := u\<rparr>),
                            username_to_client := (username_to_client S)(key \<mapsto> cid)\<rparr>;
                     S2 = send_to L (create_ack (clk 0) m) cid S1;
                     (seq_num, S3) = get_next_sequence S2;
                     join_msg = broadcast_message (clk 1) (PStr ''SERVER'')
                                  (py_str u @ '' has joined the chat'') seq_num
                 in (None, broadcast_message_srv L join_msg (Some cid) S3)))"

definition handle_disconnect ::
  "pylib \<Rightarrow> (nat \<Rightarrow> int) \<Rightarrow> nat \<Rightarrow> message \<Rightarrow> server \<Rightarrow> exn option \<times> server" where
  "handle_disconnect L clk cid m S =
     (let S1 = send_to L (create_ack (clk 0) m) cid S
      in (None, S1\<lparr>conns := (conns S1)(cid := (conns S1 cid)\<lparr>connected_conn := False\<rparr>)\<rparr>))"

definition handle_chat_message ::
  "pylib \<Rightarrow> (nat \<Rightarrow> int) \<Rightarrow> nat \<Rightarrow> message \<Rightarrow> server \<Rightarrow> exn option \<times> server" where
  "handle_chat_message L clk cid m S =
     (case payload_get (payload m) ''username'' of
        Inl e \<Rightarrow> (Some e, S)
      | Inr _ \<Rightarrow>
          let S1 = send_to L (create_ack (clk 0) m) cid S
          in (None, broadcast_message_srv L m (Some cid) S1))"

definition handle_broadcast ::
  "pylib \<Rightarrow> (nat \<Rightarrow> int) \<Rightarrow> nat \<Rightarrow> message \<Rightarrow> server \<Rightarrow> exn option \<times> server" where
  "handle_broadcast L clk cid m S =
     (case payload_get (payload m) ''username'' of
        Inl e \<Rightarrow> (Some e, S)
      | Inr _ \<Rightarrow>
          let S1 = send_to L (create_ack (clk 0) m) cid S
          in (None, broadcast_message_srv L m None S1))"

text \<open>
  \<^verbatim>\<open>_handle_private_message\<close>: the ACK is sent before the recipient is looked up, so an
  unhashable recipient raises after the ACK.
\<close>

definition handle_private_message ::
  "pylib \<Rightarrow> (nat \<Rightarrow> int) \<Rightarrow> nat \<Rightarrow> message \<Rightarrow> server \<Rightarrow> exn option \<times> server" where
  "handle_private_message L clk cid m S =
     (case payload_get (payload m) ''recipient'' of
        Inl e \<Rightarrow> (Some e, S)
      | Inr r \<Rightarrow>
          let recipient = (case r of None \<Rightarrow> PNone | Some v \<Rightarrow> v);
              S1 = send_to L (create_ack (clk 0) m) cid S
          in (case dict_key recipient of
                Inl e \<Rightarrow> (Some e, S1)
              | Inr key \<Rightarrow>
                  (case username_to_client S1 key of
                     Some rid \<Rightarrow>
                       if connected_conn (conns S1 rid) then (None, send_to L m rid S1)
                       else
                         let (seq_num, S2) = get_next_sequence S1
                         in (None, send_to L
                               (error_message (clk 1)
                                  (''User '' @ [CHR 0x27] @ py_str recipient @ [CHR 0x27]
                                     @ '' not found or offline'') seq_num) cid S2)
                   | None \<Rightarrow>
                       let (seq_num, S2) = get_next_sequence S1
                       in (None, send_to L
                             (error_message (clk 1)
                                (''User '' @ [CHR 0x27] @ py_str recipient @ [CHR 0x27]
                                   @ '' not found or offline'') seq_num) cid S2))))"

definition handle_heartbeat ::
  "pylib \<Rightarrow> (nat \<Rightarrow> int) \<Rightarrow> nat \<Rightarrow> message \<Rightarrow> server \<Rightarrow> exn option \<times> server" where
  "handle_heartbeat L clk cid m S = (None, send_to L (create_ack (clk 0) m) cid S)"

definition handle_ack_srv :: "nat \<Rightarrow> message \<Rightarrow> server \<Rightarrow> exn option \<times> server" where
  "handle_ack_srv cid m S =
     (case payload_get (payload m) ''ack_for'' of
        Inl e \<Rightarrow> (Some e, S)
      | Inr None \<Rightarrow> (None, S)
      | Inr (Some ack_for) \<Rightarrow>
          if ack_for \<noteq> PNone
          then (case remove_pending ack_for (pending_acks_conn (conns S cid)) of
                  Inl e \<Rightarrow> (Some e, S)
                | Inr tbl \<Rightarrow>
                    (None, S\<lparr>conns := (conns S)(cid := (conns S cid)\<lparr>pending_acks_conn := tbl\<rparr>)\<rparr>))
          else (None, S))"

text \<open>\<^verbatim>\<open>_process_message\<close>: the last branch only prints.\<close>

definition process_message ::
  "pylib \<Rightarrow> (nat \<Rightarrow> int) \<Rightarrow> nat \<Rightarrow> message \<Rightarrow> server \<Rightarrow> exn option \<times> server" where
  "process_message L clk cid m S =
     (if msg_type m = CONNECT then handle_connect L clk cid m S
      else if msg_type m = DISCONNECT then handle_disconnect L clk cid m S
      else if msg_type m = CHAT_MSG then handle_chat_message L clk cid m S
      else if msg_type m = BROADCAST then handle_broadcast L clk cid m S
      else if msg_type m = PRIVATE_MSG then handle_private_message L clk cid m S
      else if msg_type m = HEARTBEAT then handle_heartbeat L clk cid m S
      else if msg_type m \<in> {CHAT_ACK, BROADCAST_ACK, PRIVATE_ACK, CONNECT_ACK}
        then handle_ack_srv cid m S
      else (None, S))"

subsection \<open>Notions used to state the properties\<close>

text \<open>A session that a fan-out reaches: in \<^verbatim>\<open>self.clients\<close>, connected, with a username.\<close>

definition registered :: "server \<Rightarrow> nat \<Rightarrow> bool" where
  "registered S i \<longleftrightarrow>
     i \<in> set (clients S) \<and> connected_conn (conns S i) \<and> truthy (username (conns S i))"

text \<open>Whether a message can be framed: \<^verbatim>\<open>serialize\<close> succeeds and the length fits 4 bytes.\<close>

definition sendable :: "pylib \<Rightarrow> message \<Rightarrow> bool" where
  "sendable L m = (case serialize L m of Inl e \<Rightarrow> False | Inr data \<Rightarrow> length data < 2 ^ 32)"

text \<open>The messages written to the socket of session \<open>i\<close> between two states.\<close>

definition written :: "server \<Rightarrow> server \<Rightarrow> nat \<Rightarrow> message list" where
  "written S S' i = drop (length (outbox (conns S i))) (outbox (conns S' i))"

text \<open>
  The username index is consistent with the sessions: a session of \<^verbatim>\<open>self.clients\<close> whose
  username is set is the one that the index gives for that username.
\<close>

definition registry_inv :: "server \<Rightarrow> bool" where
  "registry_inv S \<longleftrightarrow>
     list_all (\<lambda>i. username (conns S i) = PNone
                   \<or> (case dict_key (username (conns S i)) of
                         Inl e \<Rightarrow> False
                       | Inr key \<Rightarrow> username_to_client S key = Some i))
              (clients S)"


section \<open>A library instance for concrete frames\<close>

text \<open>
  An instance of the library parameters to run the model on concrete inputs. On the inputs
  used below it returns what CPython returns: the JSON text of the empty dict and of the
  payload of a CONNECT message, ASCII text under UTF-8, and the MD5 digests of the byte
  strings \<^verbatim>\<open>{}\<close>, \<^verbatim>\<open>{\<close>, \<^verbatim>\<open>\xff\<close> and of that JSON text.
\<close>

definition connect_json :: string where
  \<open>connect_json = ''{"username": "DuplicateTest", "action": "connect"}''\<close>

definition connect_payload :: pyval where
  "connect_payload = PDict [(''username'', PStr ''DuplicateTest''), (''action'', PStr ''connect'')]"

definition sample_md5 :: "byte list \<Rightarrow> byte list" where
  "sample_md5 bs =
     (if bs = [0x7B, 0x7D]
      then [0x99, 0x91, 0x4B, 0x93, 0x2B, 0xD3, 0x7A, 0x50,
            0xB9, 0x83, 0xC5, 0xE7, 0xC9, 0x0A, 0xE9, 0x3B]
      else if bs = [0x7B]
      then [0xF9, 0x5B, 0x70, 0xFD, 0xC3, 0x08, 0x85, 0x60,
            0x73, 0x2A, 0x5A, 0xC1, 0x35, 0x64, 0x45, 0x06]
      else if bs = [0xFF]
      then [0x00, 0x59, 0x4F, 0xD4, 0xF4, 0x2B, 0xA4, 0x3F,
            0xC1, 0xCA, 0x04, 0x27, 0xA0, 0x57, 0x62, 0x95]
      else if bs = map (\<lambda>c. of_nat (of_char c)) connect_json
      then [0x89, 0x2F, 0xB2, 0x7D, 0x8E, 0xDC, 0x36, 0x90,
            0xB1, 0xFC, 0xC1, 0x0F, 0x8A, 0x55, 0x66, 0x91]
      else replicate 16 0)"

definition sample_lib :: pylib where
  "sample_lib =
     \<lparr> json_dumps = (\<lambda>p. if p = PDict [] then ''{}''
                         else if p = connect_payload then connect_json else ''null''),
       json_loads = (\<lambda>s. if s = ''{}'' then Some (PDict [])
                         else if s = connect_json then Some connect_payload
                         else if s = ''null'' then Some PNone else None),
       utf8_encode = map (\<lambda>c. of_nat (of_char c)),
       utf8_decode = (\<lambda>bs. if list_all (\<lambda>b. b < 128) bs
                           then Some (map (\<lambda>b. char_of (unat b)) bs) else None),
       md5_digest = sample_md5 \<rparr>"

text \<open>
  A client that has started its receive thread and sends the CONNECT message of
  \<^verbatim>\<open>connect('DuplicateTest')\<close>, and three behaviours of the other side: the server answers
  the first transmission with a NACK; nothing ever arrives; the first \<open>K\<close> transmissions
  get no answer and the next one is acknowledged.
\<close>

definition sample_connect :: message where
  "sample_connect = connect_message 1000 ''DuplicateTest'' 0"

definition sample_client :: client where
  "sample_client = \<lparr> pending_acks = Map.empty, connected = False, running = True, sent = [] \<rparr>"

definition env_nack :: env where
  "env_nack =
     \<lparr> send_ok = (\<lambda>i. True), early = (\<lambda>i. []),
       rx = (\<lambda>i j. if i = 0 \<and> j = 0
                     then [create_nack 1001 sample_connect ''Username already taken''] else []) \<rparr>"



section \<open>Properties of the codec\<close>

lemma length_be_bytes: "length (be_bytes n v) = n"
  by (induction n arbitrary: v) auto

lemma be_nat_snoc: "be_nat (bs @ [b]) = 256 * be_nat bs + unat b"
  by (simp add: be_nat_def)

lemma be_nat_be_bytes: "v < 256 ^ n \<Longrightarrow> be_nat (be_bytes n v) = v"
proof (induction n arbitrary: v)
  case 0
  then show ?case by (simp add: be_nat_def)
next
  case (Suc n)
  have "v div 256 < 256 ^ n" using Suc.prems by (simp add: less_mult_imp_div_less)
  then have "be_nat (be_bytes n (v div 256)) = v div 256" by (rule Suc.IH)
  moreover have "unat (of_nat (v mod 256) :: byte) = v mod 256"
    by (simp add: unat_of_nat)
  ultimately show ?case by (simp add: be_nat_snoc)
qed

lemma be_nat_bound: "be_nat bs < 256 ^ length bs"
proof (induction bs rule: rev_induct)
  case Nil
  then show ?case by (simp add: be_nat_def)
next
  case (snoc b bs)
  have b: "unat b < 256" using unsigned_less [of b, where ?'a = nat] by simp
  have "be_nat (bs @ [b]) = 256 * be_nat bs + unat b" by (rule be_nat_snoc)
  also have "\<dots> < 256 * Suc (be_nat bs)" using b by simp
  also have "\<dots> \<le> 256 * 256 ^ length bs"
    using snoc by (intro mult_le_mono2) simp
  finally show ?case by simp
qed

lemma unpack_header_fields:
  assumes "length a = 1" "length b = 1" "length c = 4" "length d = 8"
          "length e = 4" "length f = 4" "length g = 2"
  shows "unpack_header (slice 0 HEADER_SIZE ((a @ b @ c @ d @ e @ f @ g) @ rest)) =
           (be_nat a, be_nat b, be_nat c, be_nat d, be_nat e, be_nat f, be_nat g)"
  using assms by (simp add: unpack_header_def slice_def HEADER_SIZE_def)

lemma MessageType_roundtrip: "MessageType_of_int (int_of_MessageType t) = Inr t"
  by (cases t) (simp_all add: MessageType_of_int_def)

lemma int_of_MessageType_bound: "int_of_MessageType t < 256"
  by (cases t) simp_all

lemma serialize_ok:
  assumes "0 \<le> sequence_num m" "sequence_num m < 2 ^ 32"
      and "0 \<le> timestamp m" "timestamp m < 2 ^ 64"
      and "length (utf8_encode L (json_dumps L (payload m))) < 2 ^ 32"
  shows "serialize L m =
           Inr ((be_bytes 1 VERSION @ be_bytes 1 (int_of_MessageType (msg_type m))
                 @ be_bytes 4 (nat (sequence_num m)) @ be_bytes 8 (nat (timestamp m))
                 @ be_bytes 4 (length (utf8_encode L (json_dumps L (payload m))))
                 @ be_bytes 4 (calculate_checksum L (utf8_encode L (json_dumps L (payload m))))
                 @ be_bytes 2 0)
                @ utf8_encode L (json_dumps L (payload m)))"
proof -
  have ck: "calculate_checksum L bs < 2 ^ 32" for bs
  proof -
    have "be_nat (take 4 (md5_digest L bs)) < 256 ^ length (take 4 (md5_digest L bs))"
      by (rule be_nat_bound)
    also have "\<dots> \<le> (256::nat) ^ 4" by (rule power_increasing) simp_all
    finally show ?thesis by (simp add: calculate_checksum_def)
  qed
  have ty: "int_of_MessageType (msg_type m) < 256" by (rule int_of_MessageType_bound)
  have ckint: "int (calculate_checksum L bs) < 4294967296" for bs
    using ck [of bs] by simp
  show ?thesis
    using assms ty ckint
    by (simp add: serialize_def Let_def pack_field_def VERSION_def)
qed

text \<open>
  Claim C3. For a message of any of the 13 types whose sequence number fits 32 bits, whose
  timestamp fits 64 bits and whose payload the JSON library writes and reads back (the text of
  the payload survives UTF-8 and is shorter than 2^32 bytes), \<open>serialize\<close> succeeds and
  \<open>deserialize\<close> of its bytes returns a message with the same type, the same sequence
  number and the same payload.
\<close>

theorem serialize_deserialize_roundtrip:
  assumes "0 \<le> sequence_num m" "sequence_num m < 2 ^ 32"
      and "0 \<le> timestamp m" "timestamp m < 2 ^ 64"
      and "length (utf8_encode L (json_dumps L (payload m))) < 2 ^ 32"
      and "utf8_decode L (utf8_encode L (json_dumps L (payload m))) = Some (json_dumps L (payload m))"
      and "json_loads L (json_dumps L (payload m)) = Some (payload m)"
  shows "\<exists>data m'. serialize L m = Inr data \<and> deserialize L now data = Inr (Some m')
           \<and> msg_type m' = msg_type m \<and> sequence_num m' = sequence_num m
           \<and> payload m' = payload m"
proof -
  let ?pb = "utf8_encode L (json_dumps L (payload m))"
  let ?h = "be_bytes 1 VERSION @ be_bytes 1 (int_of_MessageType (msg_type m))
                 @ be_bytes 4 (nat (sequence_num m)) @ be_bytes 8 (nat (timestamp m))
                 @ be_bytes 4 (length ?pb)
                 @ be_bytes 4 (calculate_checksum L ?pb)
                 @ be_bytes 2 0"
  have ser: "serialize L m = Inr (?h @ ?pb)"
    using assms(1-5) by (rule serialize_ok)
  have ck: "calculate_checksum L ?pb < 256 ^ 4"
  proof -
    have "be_nat (take 4 (md5_digest L ?pb)) < 256 ^ length (take 4 (md5_digest L ?pb))"
      by (rule be_nat_bound)
    also have "\<dots> \<le> (256::nat) ^ 4" by (rule power_increasing) simp_all
    finally show ?thesis by (simp add: calculate_checksum_def)
  qed
  have hdr: "unpack_header (slice 0 HEADER_SIZE (?h @ ?pb)) =
      (VERSION, int_of_MessageType (msg_type m), nat (sequence_num m), nat (timestamp m),
       length ?pb, calculate_checksum L ?pb, 0)"
  proof -
    have "unpack_header (slice 0 HEADER_SIZE (?h @ ?pb)) =
       (be_nat (be_bytes 1 VERSION), be_nat (be_bytes 1 (int_of_MessageType (msg_type m))),
        be_nat (be_bytes 4 (nat (sequence_num m))), be_nat (be_bytes 8 (nat (timestamp m))),
        be_nat (be_bytes 4 (length ?pb)), be_nat (be_bytes 4 (calculate_checksum L ?pb)),
        be_nat (be_bytes 2 0))"
      by (rule unpack_header_fields) (simp_all add: length_be_bytes)
    moreover have "be_nat (be_bytes 1 VERSION) = VERSION"
      by (rule be_nat_be_bytes) (simp add: VERSION_def)
    moreover have "be_nat (be_bytes 1 (int_of_MessageType (msg_type m))) = int_of_MessageType (msg_type m)"
      by (rule be_nat_be_bytes) (use int_of_MessageType_bound [of "msg_type m"] in simp)
    moreover have "be_nat (be_bytes 4 (nat (sequence_num m))) = nat (sequence_num m)"
      by (rule be_nat_be_bytes) (use assms(1,2) in simp)
    moreover have "be_nat (be_bytes 8 (nat (timestamp m))) = nat (timestamp m)"
      by (rule be_nat_be_bytes) (use assms(3,4) in simp)
    moreover have "be_nat (be_bytes 4 (length ?pb)) = length ?pb"
      by (rule be_nat_be_bytes) (use assms(5) in simp)
    moreover have "be_nat (be_bytes 4 (calculate_checksum L ?pb)) = calculate_checksum L ?pb"
      by (rule be_nat_be_bytes) (rule ck)
    moreover have "be_nat (be_bytes 2 0) = 0"
      by (rule be_nat_be_bytes) simp
    ultimately show ?thesis by simp
  qed
  have len: "length (?h @ ?pb) = HEADER_SIZE + length ?pb"
    by (simp add: length_be_bytes HEADER_SIZE_def)
  have pl: "slice HEADER_SIZE (HEADER_SIZE + length ?pb) (?h @ ?pb) = ?pb"
    by (simp add: slice_def length_be_bytes HEADER_SIZE_def)
  have des: "deserialize L now (?h @ ?pb) =
      Inr (Some (ProtocolMessage now (msg_type m) (int (nat (sequence_num m))) (payload m)
                    (Some (int (nat (timestamp m))))))"
    unfolding deserialize_def hdr
    using len pl assms(6,7)
    by (simp add: Let_def MessageType_roundtrip del: append_assoc)
  show ?thesis
    using ser des assms(1) by (auto simp: ProtocolMessage_def)
qed


text \<open>
  Claim C9. \<open>deserialize\<close> is not total: on an input whose length, version, checksum and
  JSON payload are all valid but whose type byte is outside 1..13, the conversion
  \<^verbatim>\<open>MessageType(msg_type)\<close> raises \<^verbatim>\<open>ValueError\<close>, which leaves the function.
\<close>

theorem deserialize_bad_type_raises:
  assumes "unpack_header (slice 0 HEADER_SIZE data) =
             (version, ty, seq_num, ts, payload_len, checksum, reserved)"
      and "HEADER_SIZE + payload_len \<le> length data"
      and "version = VERSION"
      and "calculate_checksum L (slice HEADER_SIZE (HEADER_SIZE + payload_len) data) = checksum"
      and "utf8_decode L (slice HEADER_SIZE (HEADER_SIZE + payload_len) data) = Some s"
      and "json_loads L s = Some p"
      and "ty < 1 \<or> 13 < ty"
  shows "deserialize L now data = Inl ValueError"
  using assms(2-7) unfolding deserialize_def assms(1)
  by (auto simp: Let_def MessageType_of_int_def)

lemmas sample_eval = sample_lib_def sample_md5_def connect_json_def connect_payload_def HEADER_SIZE_def VERSION_def slice_def unpack_header_def
  calculate_checksum_def be_nat_def

lemma sample_chars: "char_of (123::nat) = CHR ''{''" "char_of (125::nat) = CHR ''}''"
  by code_simp+

theorem deserialize_bad_type_raises_witness:
  "deserialize sample_lib 77
     [1, 14, 0,0,0,42, 0,0,0,0,0,0,0,5, 0,0,0,2, 0x99,0x91,0x4B,0x93, 0,0, 0x7B,0x7D]
     = Inl ValueError
   \<and> deserialize sample_lib 77
     [1, 0, 0,0,0,42, 0,0,0,0,0,0,0,5, 0,0,0,2, 0x99,0x91,0x4B,0x93, 0,0, 0x7B,0x7D]
     = Inl ValueError"
proof -
  note c = sample_chars
  have 1: "deserialize sample_lib 77
     [1, 14, 0,0,0,42, 0,0,0,0,0,0,0,5, 0,0,0,2, 0x99,0x91,0x4B,0x93, 0,0, 0x7B,0x7D]
     = Inl ValueError"
    by (rule deserialize_bad_type_raises [where version = 1 and ty = 14 and seq_num = 42
          and ts = 5 and payload_len = 2 and checksum = "0x99914B93" and reserved = 0
          and s = "''{}''" and p = "PDict []"])
       (simp_all add: sample_eval c)
  have 2: "deserialize sample_lib 77
     [1, 0, 0,0,0,42, 0,0,0,0,0,0,0,5, 0,0,0,2, 0x99,0x91,0x4B,0x93, 0,0, 0x7B,0x7D]
     = Inl ValueError"
    by (rule deserialize_bad_type_raises [where version = 1 and ty = 0 and seq_num = 42
          and ts = 5 and payload_len = 2 and checksum = "0x99914B93" and reserved = 0
          and s = "''{}''" and p = "PDict []"])
       (simp_all add: sample_eval c)
  from 1 2 show ?thesis by simp
qed

theorem serialize_deserialize_roundtrip_witness:
  "\<exists>data m'. serialize sample_lib
                 \<lparr>msg_type = CHAT_MSG, sequence_num = 42, timestamp = 5, payload = PDict []\<rparr>
               = Inr data
     \<and> deserialize sample_lib 77 data = Inr (Some m')
     \<and> msg_type m' = CHAT_MSG \<and> sequence_num m' = 42 \<and> payload m' = PDict []"
  using serialize_deserialize_roundtrip [of
      "\<lparr>msg_type = CHAT_MSG, sequence_num = 42, timestamp = 5, payload = PDict []\<rparr>"
      sample_lib 77]
  by (simp add: sample_lib_def sample_chars)


section \<open>Properties of the reliable send\<close>

lemma sent_receive_loop: "sent (receive_loop ms c) = sent c"
  by (induction ms c rule: receive_loop.induct) (auto split: sum.splits)

lemma running_receive_loop_Nil: "receive_loop [] c = c"
  by simp

lemma wait_step:
  "now - start < ACK_TIMEOUT \<Longrightarrow> pending_acks c seq = Some e \<Longrightarrow>
   wait_for_ack inbox seq start now j c
     = wait_for_ack inbox seq start (now + POLL_SLEEP) (Suc j) (receive_loop (inbox j) c)"
  by (subst wait_for_ack.simps) simp

lemma wait_done:
  "now - start < ACK_TIMEOUT \<Longrightarrow> pending_acks c seq = None \<Longrightarrow>
   wait_for_ack inbox seq start now j c = (True, c, now)"
  by (subst wait_for_ack.simps) simp

lemma wait_expired:
  "\<not> now - start < ACK_TIMEOUT \<Longrightarrow> wait_for_ack inbox seq start now j c = (False, c, now)"
  by (subst wait_for_ack.simps) simp


lemma wait_silent:
  assumes "\<forall>j. inbox j = []" and "pending_acks c seq = Some e"
  shows "k \<le> 20 \<Longrightarrow>
         wait_for_ack inbox seq start (start + ACK_TIMEOUT - POLL_SLEEP * int k) j c
           = (False, c, start + ACK_TIMEOUT)"
proof (induction k arbitrary: j)
  case 0
  show ?case by (simp add: wait_expired)
next
  case (Suc k)
  have step: "start + ACK_TIMEOUT - POLL_SLEEP * int (Suc k) + POLL_SLEEP
              = start + ACK_TIMEOUT - POLL_SLEEP * int k"
    by (simp add: algebra_simps)
  have "start + ACK_TIMEOUT - POLL_SLEEP * int (Suc k) - start < ACK_TIMEOUT"
    by (simp add: POLL_SLEEP_def)
  then have "wait_for_ack inbox seq start (start + ACK_TIMEOUT - POLL_SLEEP * int (Suc k)) j c
        = wait_for_ack inbox seq start (start + ACK_TIMEOUT - POLL_SLEEP * int k) (Suc j) c"
    using assms wait_step [of "start + ACK_TIMEOUT - POLL_SLEEP * int (Suc k)" start c seq e inbox j]
    by (simp only: step receive_loop.simps)
  also have "\<dots> = (False, c, start + ACK_TIMEOUT)"
    using Suc.prems by (intro Suc.IH) simp
  finally show ?case .
qed

lemma wait_timeout:
  assumes "\<forall>j. inbox j = []" and "pending_acks c seq = Some e"
  shows "wait_for_ack inbox seq start start 0 c = (False, c, start + ACK_TIMEOUT)"
  using wait_silent [OF assms, of 20 start 0] by (simp add: ACK_TIMEOUT_def POLL_SLEEP_def)

lemma wait_acked_from:
  assumes "pending_acks c seq = Some e" and "\<forall>i<j0. inbox i = []"
      and "pending_acks (receive_loop (inbox j0) c) seq = None" and "j0 < 19"
  shows "d = j0 - j \<Longrightarrow> j \<le> j0 \<Longrightarrow>
         wait_for_ack inbox seq start (start + POLL_SLEEP * int j) j c
           = (True, receive_loop (inbox j0) c, start + POLL_SLEEP * int (Suc j0))"
proof (induction d arbitrary: j)
  case 0
  then have j: "j = j0" by simp
  have t1: "start + POLL_SLEEP * int j0 - start < ACK_TIMEOUT"
    using assms(4) by (simp add: POLL_SLEEP_def ACK_TIMEOUT_def)
  have t2: "start + POLL_SLEEP * int j0 + POLL_SLEEP - start < ACK_TIMEOUT"
    using assms(4) by (simp add: POLL_SLEEP_def ACK_TIMEOUT_def)
  have "wait_for_ack inbox seq start (start + POLL_SLEEP * int j0) j0 c
        = wait_for_ack inbox seq start (start + POLL_SLEEP * int j0 + POLL_SLEEP) (Suc j0)
            (receive_loop (inbox j0) c)"
    using t1 assms(1) by (rule wait_step)
  also have "\<dots> = (True, receive_loop (inbox j0) c, start + POLL_SLEEP * int j0 + POLL_SLEEP)"
    using t2 assms(3) by (rule wait_done)
  finally show ?case by (simp add: j algebra_simps)
next
  case (Suc d)
  then have lt: "j < j0" by simp
  have t1: "start + POLL_SLEEP * int j - start < ACK_TIMEOUT"
    using assms(4) lt by (simp add: POLL_SLEEP_def ACK_TIMEOUT_def)
  have e: "inbox j = []" using assms(2) lt by simp
  have "wait_for_ack inbox seq start (start + POLL_SLEEP * int j) j c
        = wait_for_ack inbox seq start (start + POLL_SLEEP * int j + POLL_SLEEP) (Suc j)
            (receive_loop (inbox j) c)"
    using t1 assms(1) by (rule wait_step)
  also have "\<dots> = wait_for_ack inbox seq start (start + POLL_SLEEP * int (Suc j)) (Suc j) c"
    by (simp add: e algebra_simps)
  also have "\<dots> = (True, receive_loop (inbox j0) c, start + POLL_SLEEP * int (Suc j0))"
    using Suc.prems lt by (intro Suc.IH) simp_all
  finally show ?case .
qed

lemma wait_acked:
  assumes "pending_acks c seq = Some e" and "\<forall>i<j0. inbox i = []"
      and "pending_acks (receive_loop (inbox j0) c) seq = None" and "j0 < 19"
  shows "wait_for_ack inbox seq start start 0 c
           = (True, receive_loop (inbox j0) c, start + POLL_SLEEP * int (Suc j0))"
  using wait_acked_from [OF assms, of j0 0 start] by simp

lemma send_message_ok:
  assumes "serialize L m = Inr data" and "length data < 2 ^ 32"
  shows "send_message L True m c = (True, c\<lparr>sent := sent c @ [be_bytes 4 (length data) @ data]\<rparr>)"
  using assms by (simp add: send_message_def)

lemma send_message_fail:
  "send_message L False m c = (False, c\<lparr>connected := False\<rparr>)"
  by (simp add: send_message_def split: sum.splits)



lemma send_loop_acked:
  "i \<le> MAX_RETRIES \<Longrightarrow> send_message L (send_ok E i) message c = (True, c1) \<Longrightarrow>
   c2 = receive_loop (early E i) c1 \<Longrightarrow>
   c3 = c2\<lparr>pending_acks := (pending_acks c2)(sequence_num message \<mapsto> (message, t, i))\<rparr> \<Longrightarrow>
   wait_for_ack (rx E i) (sequence_num message) t t 0 c3 = (True, c4, t4) \<Longrightarrow>
   send_loop L E message i t c =
     (True, c4, t4, [Transmit (pending_acks c), Registered (pending_acks c3)])"
  by (subst send_loop.simps) (simp add: Let_def)

lemma send_loop_retry:
  "i \<le> MAX_RETRIES \<Longrightarrow> send_message L (send_ok E i) message c = (True, c1) \<Longrightarrow>
   c2 = receive_loop (early E i) c1 \<Longrightarrow>
   c3 = c2\<lparr>pending_acks := (pending_acks c2)(sequence_num message \<mapsto> (message, t, i))\<rparr> \<Longrightarrow>
   wait_for_ack (rx E i) (sequence_num message) t t 0 c3 = (False, c4, t4) \<Longrightarrow>
   send_loop L E message (Suc i) t4 c4 = (r, c5, t5, tr) \<Longrightarrow>
   send_loop L E message i t c =
     (r, c5, t5, Transmit (pending_acks c) # Registered (pending_acks c3) # tr)"
  by (subst send_loop.simps) (simp add: Let_def)




lemma send_loop_success:
  assumes ser: "serialize L message = Inr data" "length data < 2 ^ 32"
      and K: "K \<le> MAX_RETRIES"
      and ok: "\<forall>i\<le>K. send_ok E i"
      and lost: "\<forall>i<K. early E i = [] \<and> (\<forall>j. rx E i j = [])"
      and ack: "early E K = []" "\<forall>j<j0. rx E K j = []" "j0 < 19"
               "\<forall>x. running x \<longrightarrow>
                    pending_acks (receive_loop (rx E K j0) x) (sequence_num message) = None"
  shows "d = K - i \<Longrightarrow> i \<le> K \<Longrightarrow> running c \<Longrightarrow>
         send_loop L E message i t c = res \<Longrightarrow>
         returned res
         \<and> pending_acks (client_after res) (sequence_num message) = None
         \<and> sent (client_after res) = sent c @ replicate (Suc d) (be_bytes 4 (length data) @ data)
         \<and> clock_after res = t + ACK_TIMEOUT * int d + POLL_SLEEP * int (Suc j0)"
proof (induction d arbitrary: i t c res)
  case 0
  let ?frame = "be_bytes 4 (length data) @ data"
  let ?seq = "sequence_num message"
  from 0 have iK: "i = K" by simp
  with K have i: "i \<le> MAX_RETRIES" by simp
  define c1 where "c1 = c\<lparr>sent := sent c @ [?frame]\<rparr>"
  define c3 where "c3 = c1\<lparr>pending_acks := (pending_acks c1)(?seq \<mapsto> (message, t, i))\<rparr>"
  have sm: "send_message L (send_ok E i) message c = (True, c1)"
    using ser ok iK by (simp add: send_message_ok c1_def)
  have p3: "pending_acks c3 ?seq = Some (message, t, i)" by (simp add: c3_def)
  have r3: "running c3" using "0.prems"(3) by (simp add: c3_def c1_def)
  have w: "wait_for_ack (rx E i) ?seq t t 0 c3
             = (True, receive_loop (rx E i j0) c3, t + POLL_SLEEP * int (Suc j0))"
    using p3 ack(2-4) r3 unfolding iK by (intro wait_acked) simp_all
  have eq: "send_loop L E message i t c =
              (True, receive_loop (rx E i j0) c3, t + POLL_SLEEP * int (Suc j0),
               [Transmit (pending_acks c), Registered (pending_acks c3)])"
    using i sm _ _ w by (rule send_loop_acked) (simp_all add: ack(1) iK c3_def)
  have "res = (True, receive_loop (rx E i j0) c3, t + POLL_SLEEP * int (Suc j0),
               [Transmit (pending_acks c), Registered (pending_acks c3)])"
    using eq "0.prems"(4) by simp
  then show ?case
    using ack(4) iK "0.prems"(1) r3
    by (simp add: returned_def client_after_def clock_after_def sent_receive_loop c3_def c1_def)
next
  case (Suc d)
  let ?frame = "be_bytes 4 (length data) @ data"
  let ?seq = "sequence_num message"
  from Suc.prems have lt: "i < K" and d: "d = K - Suc i" and i': "Suc i \<le> K" by simp_all
  with K have i: "i \<le> MAX_RETRIES" by simp
  from lost lt have e: "early E i = []" and q: "\<forall>j. rx E i j = []" by simp_all
  from ok lt have oki: "send_ok E i" by simp
  define c1 where "c1 = c\<lparr>sent := sent c @ [?frame]\<rparr>"
  define c3 where "c3 = c1\<lparr>pending_acks := (pending_acks c1)(?seq \<mapsto> (message, t, i))\<rparr>"
  have sm: "send_message L (send_ok E i) message c = (True, c1)"
    using ser oki by (simp add: send_message_ok c1_def)
  have w: "wait_for_ack (rx E i) ?seq t t 0 c3 = (False, c3, t + ACK_TIMEOUT)"
    using q by (rule wait_timeout) (simp add: c3_def)
  obtain r c5 t5 tr where
    n: "send_loop L E message (Suc i) (t + ACK_TIMEOUT) c3 = (r, c5, t5, tr)"
    by (cases "send_loop L E message (Suc i) (t + ACK_TIMEOUT) c3")
  have eq: "send_loop L E message i t c =
              (r, c5, t5, Transmit (pending_acks c) # Registered (pending_acks c3) # tr)"
    using i sm _ _ w n by (rule send_loop_retry) (simp_all add: e c3_def)
  have r3: "running c3" using Suc.prems(3) by (simp add: c3_def c1_def)
  from Suc.IH [OF d i' r3 n]
  have "r" "pending_acks c5 ?seq = None" "sent c5 = sent c3 @ replicate (Suc d) ?frame"
       "t5 = t + ACK_TIMEOUT + ACK_TIMEOUT * int d + POLL_SLEEP * int (Suc j0)"
    by (simp_all add: returned_def client_after_def clock_after_def)
  moreover have "res = (r, c5, t5, Transmit (pending_acks c) # Registered (pending_acks c3) # tr)"
    using eq Suc.prems(4) by simp
  ultimately show ?case
    by (simp add: returned_def client_after_def clock_after_def c3_def c1_def
          replicate_app_Cons_same algebra_simps)
qed

lemma pending_send_message:
  "send_message L ok m c = (b, c1) \<Longrightarrow> pending_acks c1 = pending_acks c"
  by (auto simp: send_message_def split: sum.splits if_splits)




lemma remove_pending_PInt: "remove_pending (PInt k) tbl = Inr (tbl(k := None))"
proof (cases "tbl k")
  case None
  then have "tbl(k := None) = tbl" by (simp add: fun_upd_idem)
  with None show ?thesis
    by (simp add: remove_pending_def pending_key_def dict_key_def)
next
  case (Some e)
  then show ?thesis by (simp add: remove_pending_def pending_key_def dict_key_def)
qed


lemma nack_resolves:
  "running x \<Longrightarrow>
   pending_acks (receive_loop [create_nack t m reason] x) (sequence_num m) = None"
  by (simp add: create_nack_def ProtocolMessage_def handle_received_message_def
        handle_nack_def payload_get_def remove_pending_PInt)

lemma sample_connect_fields:
  "sequence_num sample_connect = 0" "timestamp sample_connect = 1000"
  "payload sample_connect = connect_payload" "msg_type sample_connect = CONNECT"
  by (simp_all add: sample_connect_def connect_message_def ProtocolMessage_def connect_payload_def)

lemma sample_connect_serialize:
  "\<exists>data. serialize sample_lib sample_connect = Inr data \<and> length data < 2 ^ 32"
proof -
  have "serialize sample_lib sample_connect =
          Inr ((be_bytes 1 VERSION @ be_bytes 1 (int_of_MessageType (msg_type sample_connect))
                 @ be_bytes 4 (nat (sequence_num sample_connect))
                 @ be_bytes 8 (nat (timestamp sample_connect))
                 @ be_bytes 4 (length (utf8_encode sample_lib
                                 (json_dumps sample_lib (payload sample_connect))))
                 @ be_bytes 4 (calculate_checksum sample_lib (utf8_encode sample_lib
                                 (json_dumps sample_lib (payload sample_connect))))
                 @ be_bytes 2 0)
                @ utf8_encode sample_lib (json_dumps sample_lib (payload sample_connect)))"
    by (rule serialize_ok)
       (simp_all add: sample_connect_fields sample_lib_def connect_payload_def connect_json_def)
  moreover have "length (utf8_encode sample_lib (json_dumps sample_lib (payload sample_connect)))
                   = 50"
    by (simp add: sample_connect_fields sample_lib_def connect_payload_def connect_json_def)
  ultimately show ?thesis by (simp add: length_be_bytes)
qed

text \<open>
  Claim C1 says that a reliable send whose entry is removed by a matching NACK reports
  failure. The code does not tell a NACK from an ACK: \<^verbatim>\<open>_handle_nack\<close> deletes the entry,
  the wait loop sees the entry gone and returns \<^verbatim>\<open>True\<close>. Here the CONNECT message of
  \<^verbatim>\<open>connect('DuplicateTest')\<close> is answered by the NACK of the server during the first sleep:
  \<open>send_reliable\<close> returns \<^verbatim>\<open>True\<close> after one transmission.
\<close>

theorem nack_returns_success:
  "returned (send_reliable sample_lib env_nack sample_connect 0 sample_client)
   \<and> length (sent (client_after (send_reliable sample_lib env_nack sample_connect 0 sample_client)))
       = 1"
proof -
  obtain data where ser: "serialize sample_lib sample_connect = Inr data"
    and len: "length data < 2 ^ 32"
    using sample_connect_serialize by blast
  have "returned (send_loop sample_lib env_nack sample_connect 0 0 sample_client)
      \<and> pending_acks (client_after (send_loop sample_lib env_nack sample_connect 0 0 sample_client))
           (sequence_num sample_connect) = None
      \<and> sent (client_after (send_loop sample_lib env_nack sample_connect 0 0 sample_client))
           = sent sample_client @ replicate (Suc 0) (be_bytes 4 (length data) @ data)
      \<and> clock_after (send_loop sample_lib env_nack sample_connect 0 0 sample_client)
           = 0 + ACK_TIMEOUT * int 0 + POLL_SLEEP * int (Suc 0)"
    by (rule send_loop_success [OF ser len, where K = 0 and ?j0.0 = 0])
       (simp_all add: env_nack_def sample_client_def MAX_RETRIES_def nack_resolves
          del: receive_loop.simps)
  then show ?thesis by (simp add: send_reliable_def sample_client_def)
qed



end
